theory Spec2Isabelle
  imports Complex_Main
begin

section \<open>Values that cross the API boundary\<close>

text \<open>
  \<^verbatim>\<open>response.json()\<close> hands the program an arbitrary decoded JSON value; nothing in
  \<^verbatim>\<open>main.py\<close> validates its shape, so the model keeps the whole value space. A JSON
  object is an association list read with \<open>map_of\<close>. The decoder of Python also accepts
  \<^verbatim>\<open>NaN\<close> and the infinities, which are floats that are not zero.
\<close>

datatype pyfloat = Finite rat | NaN | PosInf | NegInf

datatype json =
    JNull
  | JBool bool
  | JInt int
  | JFloat pyfloat
  | JString string
  | JArray "json list"
  | JObject "(string \<times> json) list"

text \<open>Python truthiness, as used by \<^verbatim>\<open>if background_image:\<close>.\<close>

fun truthy :: "json \<Rightarrow> bool" where
  "truthy JNull = False"
| "truthy (JBool b) = b"
| "truthy (JInt i) = (i \<noteq> 0)"
| "truthy (JFloat f) = (f \<noteq> Finite 0)"
| "truthy (JString s) = (s \<noteq> [])"
| "truthy (JArray xs) = (xs \<noteq> [])"
| "truthy (JObject kvs) = (kvs \<noteq> [])"

section \<open>Exceptions\<close>

text \<open>
  The two handlers of \<^verbatim>\<open>fetch_popular_games\<close> and the handlers of \<^verbatim>\<open>load_games\<close>
  select by class: \<^verbatim>\<open>requests.RequestException\<close> (connection errors, \<^verbatim>\<open>HTTPError\<close> from
  \<^verbatim>\<open>raise_for_status\<close>, timeouts), any other subclass of \<^verbatim>\<open>Exception\<close>, and the
  exceptions that derive from \<^verbatim>\<open>BaseException\<close> only (\<^verbatim>\<open>KeyboardInterrupt\<close>,
  \<^verbatim>\<open>SystemExit\<close>), which no \<^verbatim>\<open>except Exception\<close> clause catches.
\<close>

datatype exn =
    RequestException string
  | KeyError string
  | TypeError
  | AttributeError
  | OtherException string
  | BaseExceptionOnly string

fun is_RequestException :: "exn \<Rightarrow> bool" where
  "is_RequestException (RequestException m) = True"
| "is_RequestException e = False"

fun is_Exception :: "exn \<Rightarrow> bool" where
  "is_Exception (BaseExceptionOnly m) = False"
| "is_Exception e = True"

section \<open>Log records and formatted text\<close>

text \<open>
  An f-string with one interpolated value is kept as its prefix, the value and its
  suffix, so that no model of \<^verbatim>\<open>str()\<close> is needed.
\<close>

datatype fvalue = VExn exn | VInt int | VJson json

datatype message = Lit string | Fmt string fvalue string

datatype level = INFO | WARNING | ERROR

section \<open>The data model\<close>

text \<open>
  \<^verbatim>\<open>GameDetails\<close> stores whatever the API sent: the annotations say \<^verbatim>\<open>str\<close>, but
  nothing checks them.
\<close>

record GameDetails =
  name :: json
  description :: json
  release_date :: json
  background_image :: json

text \<open>The query of one \<^verbatim>\<open>requests.get\<close> call.\<close>

record request =
  url :: string
  key :: string
  page :: int
  page_size :: int

text \<open>
  What the program uses of a \<^verbatim>\<open>requests.Response\<close>: whether \<^verbatim>\<open>raise_for_status()\<close>
  raises, and what \<^verbatim>\<open>json()\<close> returns or raises.
\<close>

record response =
  raise_for_status :: "exn option"
  json :: "exn + json"

datatype callback = show_game_details_cb | go_back_cb

text \<open>An \<^verbatim>\<open>AsyncImage\<close> poster with the observers of its \<^verbatim>\<open>on_release\<close>.\<close>

record poster =
  source :: json
  height :: nat
  on_release :: "callback list"

datatype widget =
    Label string
  | Button string "callback list"
  | BoxLayout "widget list"

datatype root_widget = RootLayout | ScreenManagerRoot

text \<open>
  The world outside the program: the process environment after \<^verbatim>\<open>load_dotenv()\<close>, the
  behaviour of \<^verbatim>\<open>requests.get\<close> for a query, and whether building, binding and adding
  an \<^verbatim>\<open>AsyncImage\<close> for a source raises.
\<close>

record world =
  environ :: "string \<rightharpoonup> string"
  requests_get :: "request \<Rightarrow> exn + response"
  poster_fault :: "json \<Rightarrow> exn option"

text \<open>The mutable state of the process: the log file, the network trace and the widgets;
  \<open>detail_screen\<close> is \<open>None\<close> as long as the attribute \<^verbatim>\<open>self.detail_screen\<close> does not exist.\<close>

record app =
  log :: "(level \<times> message) list"
  requests_sent :: "request list"
  error_label :: message
  poster_grid_layout :: "poster list"
  loading_popup_open :: bool
  load_games_scheduled :: bool
  current :: "string option"
  screen_names :: "string list"
  detail_screen :: "widget list option"

definition logging :: "level \<Rightarrow> message \<Rightarrow> app \<Rightarrow> app" where
  "logging l m s = s\<lparr>log := log s @ [(l, m)]\<rparr>"

section \<open>Module globals\<close>

definition getenv :: "(string \<rightharpoonup> string) \<Rightarrow> string \<Rightarrow> string \<Rightarrow> string" where
  "getenv env k dflt = (case env k of None \<Rightarrow> dflt | Some v \<Rightarrow> v)"

definition api_key :: "world \<Rightarrow> string" where
  "api_key w = getenv (environ w) ''GAME_API_KEY'' ''your_api_key_here''"

definition game_api_base_url :: string where
  "game_api_base_url = ''https://api.rawg.io/api/games''"

section \<open>fetch_popular_games\<close>

text \<open>\<^verbatim>\<open>d.get(k, default)\<close>: only a dict has the method.\<close>

fun py_get :: "json \<Rightarrow> string \<Rightarrow> json \<Rightarrow> exn + json" where
  "py_get (JObject kvs) k dflt = Inr (case map_of kvs k of None \<Rightarrow> dflt | Some v \<Rightarrow> v)"
| "py_get j k dflt = Inl AttributeError"

text \<open>\<^verbatim>\<open>d[k]\<close> with a string key: \<^verbatim>\<open>KeyError\<close> on a dict without it, \<^verbatim>\<open>TypeError\<close> on
  every other JSON value.\<close>

fun py_getitem :: "json \<Rightarrow> string \<Rightarrow> exn + json" where
  "py_getitem (JObject kvs) k = (case map_of kvs k of None \<Rightarrow> Inl (KeyError k) | Some v \<Rightarrow> Inr v)"
| "py_getitem j k = Inl TypeError"

text \<open>\<^verbatim>\<open>for game_data in games\<close>: a list yields its elements, a string its characters,
  a dict its keys; the other values are not iterable.\<close>

fun py_iter :: "json \<Rightarrow> exn + json list" where
  "py_iter (JArray xs) = Inr xs"
| "py_iter (JString s) = Inr (map (\<lambda>c. JString [c]) s)"
| "py_iter (JObject kvs) = Inr (map JString (remdups (map fst kvs)))"
| "py_iter j = Inl TypeError"

text \<open>The element expression of the comprehension: \<^verbatim>\<open>GameDetails(name=game_data['name'], ...)\<close>,
  its keyword arguments evaluated left to right.\<close>

definition make_game :: "json \<Rightarrow> exn + GameDetails" where
  "make_game game_data =
     (case py_getitem game_data ''name'' of
        Inl e \<Rightarrow> Inl e
      | Inr n \<Rightarrow>
     (case py_get game_data ''description'' (JString ''No description available'') of
        Inl e \<Rightarrow> Inl e
      | Inr d \<Rightarrow>
     (case py_get game_data ''released'' (JString ''Unknown release date'') of
        Inl e \<Rightarrow> Inl e
      | Inr r \<Rightarrow>
     (case py_get game_data ''background_image'' (JString '''') of
        Inl e \<Rightarrow> Inl e
      | Inr b \<Rightarrow>
          Inr \<lparr>name = n, description = d, release_date = r, background_image = b\<rparr>))))"

text \<open>The list comprehension: the first element that raises ends it.\<close>

fun comprehension :: "json list \<Rightarrow> exn + GameDetails list" where
  "comprehension [] = Inr []"
| "comprehension (game_data # rest) =
     (case make_game game_data of
        Inl e \<Rightarrow> Inl e
      | Inr g \<Rightarrow> (case comprehension rest of Inl e \<Rightarrow> Inl e | Inr gs \<Rightarrow> Inr (g # gs)))"

definition params :: "world \<Rightarrow> int \<Rightarrow> request" where
  "params w page_number =
     \<lparr>url = game_api_base_url, key = api_key w, page = page_number, page_size = 10\<rparr>"

text \<open>The body of the \<^verbatim>\<open>try\<close> block, lines 50 to 66.\<close>

definition fetch_try :: "world \<Rightarrow> int \<Rightarrow> exn + GameDetails list" where
  "fetch_try w page_number =
     (case requests_get w (params w page_number) of
        Inl e \<Rightarrow> Inl e
      | Inr resp \<Rightarrow>
     (case raise_for_status resp of
        Some e \<Rightarrow> Inl e
      | None \<Rightarrow>
     (case json resp of
        Inl e \<Rightarrow> Inl e
      | Inr body \<Rightarrow>
     (case py_get body ''results'' (JArray []) of
        Inl e \<Rightarrow> Inl e
      | Inr games \<Rightarrow>
     (case py_iter games of
        Inl e \<Rightarrow> Inl e
      | Inr items \<Rightarrow> comprehension items)))))"

text \<open>
  The whole function: the state after the call, and either the exception that leaves the
  function (\<open>Inl\<close>) or the returned \<^verbatim>\<open>Optional[List[GameDetails]]\<close>.
\<close>

definition fetch_popular_games ::
    "world \<Rightarrow> int \<Rightarrow> app \<Rightarrow> app \<times> (exn + GameDetails list option)" where
  "fetch_popular_games w page_number s =
     (let s1 = s\<lparr>requests_sent := requests_sent s @ [params w page_number]\<rparr> in
      case fetch_try w page_number of
        Inr games \<Rightarrow> (s1, Inr (Some games))
      | Inl e \<Rightarrow>
          if is_RequestException e then
            (logging ERROR (Fmt ''Request error occurred: '' (VExn e) '''') s1, Inr None)
          else if is_Exception e then
            (logging ERROR (Fmt ''Unexpected error: '' (VExn e) '''') s1, Inr None)
          else (s1, Inl e))"

section \<open>GamePosterApp.load_games\<close>

text \<open>
  The callee \<^verbatim>\<open>fetch_popular_games(page_number)\<close> and the widget construction are
  arguments of the loops, so that the control flow of \<^verbatim>\<open>load_games\<close> is described for
  every behaviour of the calls it makes, including a call that raises.
\<close>

type_synonym fetcher = "int \<Rightarrow> app \<Rightarrow> app \<times> (exn + GameDetails list option)"

text \<open>Lines 128 to 134, \<^verbatim>\<open>for page_number in range(1, 6)\<close>; \<open>acc\<close> is
  \<^verbatim>\<open>all_popular_games\<close>. An empty list is as falsy as \<^verbatim>\<open>None\<close>.\<close>

fun collect_pages ::
    "fetcher \<Rightarrow> int list \<Rightarrow> GameDetails list \<Rightarrow> app \<Rightarrow> app \<times> (exn + GameDetails list)" where
  "collect_pages fetch [] acc s = (s, Inr acc)"
| "collect_pages fetch (page_number # rest) acc s =
     (case fetch page_number s of
        (s1, Inl e) \<Rightarrow> (s1, Inl e)
      | (s1, Inr popular_games_page) \<Rightarrow>
          (case popular_games_page of
             Some (g # gs) \<Rightarrow> collect_pages fetch rest (acc @ g # gs) s1
           | _ \<Rightarrow>
               collect_pages fetch rest acc
                 (logging ERROR
                    (Fmt ''Failed to get popular games for page '' (VInt page_number) '''') s1)))"

text \<open>
  \<^verbatim>\<open>widget.bind(on_release=callback)\<close>. The \<^verbatim>\<open>bind\<close> of Kivy skips, without an error, a
  name that starts with \<^verbatim>\<open>on_\<close> and is not an event of the widget. An \<^verbatim>\<open>AsyncImage\<close> has
  the events of \<^verbatim>\<open>Widget\<close> and \<^verbatim>\<open>on_error\<close> and \<^verbatim>\<open>on_load\<close>; \<^verbatim>\<open>on_press\<close> and
  \<^verbatim>\<open>on_release\<close> are events of \<^verbatim>\<open>ButtonBehavior\<close>, which a \<^verbatim>\<open>Button\<close> has and an
  \<^verbatim>\<open>AsyncImage\<close> has not.
\<close>

definition Widget_events :: "string list" where
  "Widget_events = [''on_touch_down'', ''on_touch_move'', ''on_touch_up'', ''on_kv_post'']"

definition AsyncImage_events :: "string list" where
  "AsyncImage_events = Widget_events @ [''on_error'', ''on_load'']"

definition Button_events :: "string list" where
  "Button_events = Widget_events @ [''on_press'', ''on_release'']"

definition bind_on_release :: "string list \<Rightarrow> callback \<Rightarrow> callback list \<Rightarrow> callback list" where
  "bind_on_release events cb observers =
     (if ''on_release'' \<in> set events then observers @ [cb] else observers)"

text \<open>Lines 140 and 141: the poster as it is when \<^verbatim>\<open>add_widget\<close> receives it.\<close>

definition game_poster :: "json \<Rightarrow> poster" where
  "game_poster src =
     \<lparr>source = src, height = 300,
      on_release = bind_on_release AsyncImage_events show_game_details_cb []\<rparr>"

text \<open>Lines 136 to 147. An exception of the inner \<^verbatim>\<open>try\<close> that is not an
  \<^verbatim>\<open>Exception\<close> leaves the loop.\<close>

fun render_posters ::
    "(json \<Rightarrow> exn option) \<Rightarrow> GameDetails list \<Rightarrow> app \<Rightarrow> app \<times> exn option" where
  "render_posters fault [] s = (s, None)"
| "render_posters fault (game_details # rest) s =
     (if truthy (background_image game_details) then
        (case fault (background_image game_details) of
           None \<Rightarrow>
             render_posters fault rest
               (s\<lparr>poster_grid_layout :=
                    poster_grid_layout s @ [game_poster (background_image game_details)]\<rparr>)
         | Some e \<Rightarrow>
             if is_Exception e then
               render_posters fault rest
                 ((logging ERROR (Fmt ''Error loading poster: '' (VExn e) '''') s)
                    \<lparr>error_label := Lit ''Error loading poster image. Please check your internet connection and try again.''\<rparr>)
             else (s, Some e))
      else
        render_posters fault rest
          (logging WARNING
             (Fmt ''No image available for the game: '' (VJson (name game_details)) '''') s))"

text \<open>The body of the outer \<^verbatim>\<open>try\<close>, lines 127 to 147.\<close>

definition load_games_try ::
    "fetcher \<Rightarrow> (json \<Rightarrow> exn option) \<Rightarrow> app \<Rightarrow> app \<times> exn option" where
  "load_games_try fetch fault s =
     (case collect_pages fetch [1..5] [] s of
        (s1, Inl e) \<Rightarrow> (s1, Some e)
      | (s1, Inr all_popular_games) \<Rightarrow> render_posters fault all_popular_games s1)"

text \<open>Lines 149 to 151: the label text is logged as it was set.\<close>

definition general_error :: "exn \<Rightarrow> app \<Rightarrow> app" where
  "general_error e s =
     (let text = Fmt ''General error: '' (VExn e) ''. Please check your setup and try again.''
      in logging ERROR text (s\<lparr>error_label := text\<rparr>))"

text \<open>\<^verbatim>\<open>try\<close> / \<^verbatim>\<open>except Exception\<close> / \<^verbatim>\<open>finally\<close>: the result is the state and the
  exception that leaves \<^verbatim>\<open>load_games\<close>, if any.\<close>

definition load_games_with ::
    "fetcher \<Rightarrow> (json \<Rightarrow> exn option) \<Rightarrow> app \<Rightarrow> app \<times> exn option" where
  "load_games_with fetch fault s =
     (case load_games_try fetch fault s of
        (s1, None) \<Rightarrow> (s1\<lparr>loading_popup_open := False\<rparr>, None)
      | (s1, Some e) \<Rightarrow>
          if is_Exception e then ((general_error e s1)\<lparr>loading_popup_open := False\<rparr>, None)
          else (s1\<lparr>loading_popup_open := False\<rparr>, Some e))"

definition load_games :: "world \<Rightarrow> app \<Rightarrow> app \<times> exn option" where
  "load_games w s = load_games_with (fetch_popular_games w) (poster_fault w) s"

text \<open>The value of \<^verbatim>\<open>all_popular_games\<close> when the first loop ends.\<close>

definition all_popular_games :: "world \<Rightarrow> app \<Rightarrow> exn + GameDetails list" where
  "all_popular_games w s = snd (collect_pages (fetch_popular_games w) [1..5] [] s)"

section \<open>Navigation\<close>

text \<open>
  Lines 156 to 169. \<^verbatim>\<open>self.detail_screen\<close> exists only when \<^verbatim>\<open>build\<close> went past its
  early return; assigning to \<^verbatim>\<open>screen_manager.current\<close> the name of a screen that the
  manager does not hold raises \<^verbatim>\<open>ScreenManagerException\<close>.
\<close>

definition show_game_details :: "app \<Rightarrow> exn + app" where
  "show_game_details s =
     (case detail_screen s of
        None \<Rightarrow> Inl AttributeError
      | Some old_widgets \<Rightarrow>
          if ''Detail Screen'' \<in> set (screen_names s) then
            Inr (s\<lparr>detail_screen :=
                     Some [BoxLayout [Label ''Game Name'', Label ''Game Description'',
                                      Label ''Release Date'',
                                      Button ''Back'' (bind_on_release Button_events go_back_cb [])]],
                   current := Some ''Detail Screen''\<rparr>)
          else Inl (OtherException ''ScreenManagerException''))"

text \<open>Lines 172 and 173.\<close>

definition go_back :: "app \<Rightarrow> exn + app" where
  "go_back s =
     (if ''Main Screen'' \<in> set (screen_names s) then Inr (s\<lparr>current := Some ''Main Screen''\<rparr>)
      else Inl (OtherException ''ScreenManagerException''))"

text \<open>
  An \<^verbatim>\<open>on_release\<close> event on a widget calls its observers in the order of binding; the
  first one that raises ends the dispatch. A poster comes to an \<^verbatim>\<open>on_release\<close> event
  only through its observers, so a tap on it is the dispatch of \<open>on_release\<close> of the
  poster.
\<close>

fun run_callback :: "callback \<Rightarrow> app \<Rightarrow> exn + app" where
  "run_callback show_game_details_cb s = show_game_details s"
| "run_callback go_back_cb s = go_back s"

fun dispatch :: "callback list \<Rightarrow> app \<Rightarrow> exn + app" where
  "dispatch [] s = Inr s"
| "dispatch (cb # cbs) s =
     (case run_callback cb s of Inl e \<Rightarrow> Inl e | Inr s1 \<Rightarrow> dispatch cbs s1)"

section \<open>GamePosterApp.build and the start of the app\<close>

definition add_screen :: "string \<Rightarrow> app \<Rightarrow> app" where
  "add_screen n s =
     s\<lparr>screen_names := screen_names s @ [n],
       current := (case current s of None \<Rightarrow> Some n | Some c \<Rightarrow> Some c)\<rparr>"

definition fresh_app :: app where
  "fresh_app =
     \<lparr>log = [], requests_sent = [], error_label = Lit '''', poster_grid_layout = [],
      loading_popup_open = False, load_games_scheduled = False, current = None,
      screen_names = [], detail_screen = None\<rparr>"

definition build :: "world \<Rightarrow> app \<times> root_widget" where
  "build w =
     (let s = fresh_app\<lparr>error_label := Lit '''', poster_grid_layout := [],
                        loading_popup_open := True\<rparr>
      in if api_key w = [] then
           (s\<lparr>error_label := Lit ''Error: API key not found. Please check your environment variables or the default API key in the code.'',
              loading_popup_open := False\<rparr>,
            RootLayout)
         else
           (add_screen ''Detail Screen''
              ((add_screen ''Main Screen'' (s\<lparr>load_games_scheduled := True\<rparr>))
                 \<lparr>detail_screen := Some []\<rparr>),
            ScreenManagerRoot))"

text \<open>\<^verbatim>\<open>GamePosterApp().run()\<close> up to the end of the start-up: \<^verbatim>\<open>build\<close>, then the
  clock calls \<^verbatim>\<open>load_games\<close> if \<^verbatim>\<open>build\<close> scheduled it.\<close>

definition run :: "world \<Rightarrow> app \<times> exn option" where
  "run w =
     (let (s, root) = build w
      in if load_games_scheduled s then load_games w s else (s, None))"

section \<open>Concrete worlds\<close>

text \<open>A response with status 2xx and a body that decodes to the given JSON value.\<close>

definition reply :: "json \<Rightarrow> response" where
  "reply body = \<lparr>raise_for_status = None, json = Inr body\<rparr>"

text \<open>A server that answers page \<open>p\<close> with \<open>body_of p\<close>; no key in the environment,
  no widget ever raises.\<close>

definition serving :: "(int \<Rightarrow> json) \<Rightarrow> world" where
  "serving body_of =
     \<lparr>environ = Map.empty,
      requests_get = (\<lambda>r. Inr (reply (body_of (page r)))),
      poster_fault = (\<lambda>src. None)\<rparr>"

definition portal :: json where
  "portal = JObject [(''name'', JString ''Portal''),
                     (''background_image'', JString ''https://media.rawg.io/portal.jpg'')]"

definition nameless :: json where
  "nameless = JObject [(''released'', JString ''2011-04-18'')]"

definition zork :: json where
  "zork = JObject [(''name'', JString ''Zork'')]"

definition results_page :: "json list \<Rightarrow> json" where
  "results_page items = JObject [(''count'', JInt 50), (''results'', JArray items)]"

definition offline :: world where
  "offline =
     \<lparr>environ = Map.empty,
      requests_get = (\<lambda>r. Inl (RequestException ''connection refused'')),
      poster_fault = (\<lambda>src. None)\<rparr>"

definition page_three_down :: world where
  "page_three_down =
     \<lparr>environ = Map.empty,
      requests_get = (\<lambda>r. if page r = 3 then Inl (RequestException ''read timed out'')
                           else Inr (reply (results_page [zork]))),
      poster_fault = (\<lambda>src. None)\<rparr>"

text \<open>
  The \<^verbatim>\<open>source\<close> of an \<^verbatim>\<open>AsyncImage\<close> is a string property of Kivy: the constructor
  raises \<^verbatim>\<open>ValueError\<close> for a source that is not a \<^verbatim>\<open>str\<close>.
\<close>

definition str_source_only :: "json \<Rightarrow> exn option" where
  "str_source_only src =
     (case src of JString u \<Rightarrow> None | _ \<Rightarrow> Some (OtherException ''ValueError''))"

definition numbered_art :: json where
  "numbered_art = JObject [(''name'', JString ''Myst''), (''background_image'', JInt 42)]"

definition numbered_art_details :: GameDetails where
  "numbered_art_details =
     \<lparr>name = JString ''Myst'', description = JString ''No description available'',
      release_date = JString ''Unknown release date'', background_image = JInt 42\<rparr>"

definition numeric_image :: world where
  "numeric_image =
     \<lparr>environ = Map.empty,
      requests_get =
        (\<lambda>r. Inr (reply (results_page (if page r = 1 then [numbered_art] else [])))),
      poster_fault = str_source_only\<rparr>"

definition mixed_images :: world where
  "mixed_images =
     \<lparr>environ = Map.empty,
      requests_get =
        (\<lambda>r. Inr (reply (results_page
                 (if page r = 1 then [portal, zork, numbered_art] else [])))),
      poster_fault = str_source_only\<rparr>"

definition empty_key :: world where
  "empty_key =
     \<lparr>environ = [''GAME_API_KEY'' \<mapsto> ''''],
      requests_get = (\<lambda>r. Inr (reply (results_page [portal]))),
      poster_fault = (\<lambda>src. None)\<rparr>"

definition raising_fetch :: fetcher where
  "raising_fetch page_number s = (s, Inl (OtherException ''boom''))"

definition numbered_game :: "int \<Rightarrow> json" where
  "numbered_game p = JObject [(''name'', JInt p)]"

definition numbered_details :: "int \<Rightarrow> GameDetails" where
  "numbered_details p =
     \<lparr>name = JInt p, description = JString ''No description available'',
      release_date = JString ''Unknown release date'', background_image = JString ''''\<rparr>"

definition ten_per_page :: world where
  "ten_per_page = serving (\<lambda>p. results_page (replicate 10 (numbered_game p)))"

definition portal_details :: GameDetails where
  "portal_details =
     \<lparr>name = JString ''Portal'', description = JString ''No description available'',
      release_date = JString ''Unknown release date'',
      background_image = JString ''https://media.rawg.io/portal.jpg''\<rparr>"

definition zork_details :: GameDetails where
  "zork_details =
     \<lparr>name = JString ''Zork'', description = JString ''No description available'',
      release_date = JString ''Unknown release date'', background_image = JString ''''\<rparr>"

section \<open>Properties of the decoding functions\<close>

lemmas example_defs = reply_def serving_def portal_def nameless_def zork_def results_page_def
  offline_def page_three_down_def str_source_only_def numbered_art_def numbered_art_details_def numeric_image_def
  mixed_images_def empty_key_def raising_fetch_def
  numbered_game_def numbered_details_def ten_per_page_def portal_details_def zork_details_def

lemmas model_defs = fetch_popular_games_def fetch_try_def params_def api_key_def getenv_def
  game_api_base_url_def make_game_def logging_def load_games_def load_games_with_def
  load_games_try_def all_popular_games_def game_poster_def fresh_app_def general_error_def
  build_def run_def add_screen_def Widget_events_def AsyncImage_events_def Button_events_def
  bind_on_release_def show_game_details_def go_back_def

lemma range_1_6: "[1..5] = [1, 2, 3, 4, 5::int]"
  by (simp add: upto_rec1)

lemma make_game_object:
  "make_game (JObject kvs) =
     (case map_of kvs ''name'' of
        None \<Rightarrow> Inl (KeyError ''name'')
      | Some n \<Rightarrow>
          Inr \<lparr>name = n,
               description = (case map_of kvs ''description'' of
                                None \<Rightarrow> JString ''No description available'' | Some v \<Rightarrow> v),
               release_date = (case map_of kvs ''released'' of
                                None \<Rightarrow> JString ''Unknown release date'' | Some v \<Rightarrow> v),
               background_image = (case map_of kvs ''background_image'' of
                                None \<Rightarrow> JString '''' | Some v \<Rightarrow> v)\<rparr>)"
  by (simp add: make_game_def split: option.splits)

lemma make_game_not_object:
  "(\<forall>kvs. game_data \<noteq> JObject kvs) \<Longrightarrow> make_game game_data = Inl TypeError"
  by (cases game_data) (simp_all add: make_game_def)

lemma make_game_raises:
  "make_game game_data = Inl e \<Longrightarrow> e = TypeError \<or> e = KeyError ''name''"
  by (cases game_data) (auto simp: make_game_object make_game_not_object split: option.splits)

lemma comprehension_Inr_iff:
  "comprehension items = Inr gs \<longleftrightarrow> map make_game items = map Inr gs"
proof (induction items arbitrary: gs)
  case Nil
  show ?case by auto
next
  case (Cons it items)
  show ?case
  proof (cases "make_game it")
    case (Inl e)
    then show ?thesis by (cases gs) auto
  next
    case (Inr g)
    show ?thesis
    proof (cases gs)
      case Nil
      then show ?thesis using Inr by (simp split: sum.splits)
    next
      case (Cons g' gs')
      have "comprehension (it # items) = Inr (g' # gs') \<longleftrightarrow>
            g = g' \<and> comprehension items = Inr gs'"
        using Inr by (auto split: sum.splits)
      then show ?thesis
        using Inr Cons Cons.IH [of gs'] by auto
    qed
  qed
qed

lemma comprehension_raises:
  "comprehension items = Inl e \<Longrightarrow> e = TypeError \<or> e = KeyError ''name''"
  by (induction items arbitrary: e) (auto split: sum.splits dest: make_game_raises)

lemma comprehension_bad_item:
  "it \<in> set items \<Longrightarrow> make_game it = Inl e \<Longrightarrow> \<exists>e'. comprehension items = Inl e'"
  by (induction items) (auto split: sum.splits)

lemma fetch_try_results:
  assumes "requests_get w (params w n) = Inr resp" "raise_for_status resp = None"
    "json resp = Inr (JObject body)"
  shows "fetch_try w n =
     (case map_of body ''results'' of
        None \<Rightarrow> Inr []
      | Some games \<Rightarrow> (case py_iter games of Inl e \<Rightarrow> Inl e | Inr items \<Rightarrow> comprehension items))"
  using assms by (simp add: fetch_try_def split: option.splits)

lemma fetch_popular_games_returns:
  "fetch_try w n = Inr gs \<Longrightarrow>
   fetch_popular_games w n s = (s\<lparr>requests_sent := requests_sent s @ [params w n]\<rparr>, Inr (Some gs))"
  by (simp add: fetch_popular_games_def)

lemma fetch_popular_games_unexpected:
  "fetch_try w n = Inl e \<Longrightarrow> \<not> is_RequestException e \<Longrightarrow> is_Exception e \<Longrightarrow>
   fetch_popular_games w n s =
     (logging ERROR (Fmt ''Unexpected error: '' (VExn e) '''')
        (s\<lparr>requests_sent := requests_sent s @ [params w n]\<rparr>), Inr None)"
  by (simp add: fetch_popular_games_def)

lemma fetch_popular_games_request_error:
  "fetch_try w n = Inl e \<Longrightarrow> is_RequestException e \<Longrightarrow>
   fetch_popular_games w n s =
     (logging ERROR (Fmt ''Request error occurred: '' (VExn e) '''')
        (s\<lparr>requests_sent := requests_sent s @ [params w n]\<rparr>), Inr None)"
  by (simp add: fetch_popular_games_def)

section \<open>What a call of fetch_popular_games does to the state\<close>

text \<open>
  A call appends one query to the network trace and at most one record to the log, and
  touches nothing else. The first loop of \<^verbatim>\<open>load_games\<close> inherits this.
\<close>

lemma fetch_popular_games_state:
  "\<exists>extra. fst (fetch_popular_games w p s) =
     s\<lparr>log := log s @ extra, requests_sent := requests_sent s @ [params w p]\<rparr>"
proof (cases "fetch_try w p")
  case (Inr gs)
  then have "fst (fetch_popular_games w p s) =
     s\<lparr>log := log s @ [], requests_sent := requests_sent s @ [params w p]\<rparr>"
    by (simp add: fetch_popular_games_def)
  then show ?thesis by blast
next
  case (Inl e)
  show ?thesis
  proof (cases "is_Exception e")
    case True
    then have "fst (fetch_popular_games w p s) =
       s\<lparr>log := log s @ [(ERROR, Fmt (if is_RequestException e then ''Request error occurred: ''
                                        else ''Unexpected error: '') (VExn e) '''')],
         requests_sent := requests_sent s @ [params w p]\<rparr>"
      using Inl by (simp add: fetch_popular_games_def logging_def)
    then show ?thesis by blast
  next
    case False
    then have "\<not> is_RequestException e" by (cases e) auto
    with False have "fst (fetch_popular_games w p s) =
       s\<lparr>log := log s @ [], requests_sent := requests_sent s @ [params w p]\<rparr>"
      using Inl by (simp add: fetch_popular_games_def)
    then show ?thesis by blast
  qed
qed

lemma collect_pages_state:
  "\<exists>extra reqs. fst (collect_pages (fetch_popular_games w) ps acc s) =
     s\<lparr>log := log s @ extra, requests_sent := requests_sent s @ reqs\<rparr>"
proof (induction ps arbitrary: acc s)
  case Nil
  have "fst (collect_pages (fetch_popular_games w) [] acc s) =
     s\<lparr>log := log s @ [], requests_sent := requests_sent s @ []\<rparr>" by simp
  then show ?case by blast
next
  case (Cons p ps)
  obtain s1 r where f: "fetch_popular_games w p s = (s1, r)" by (cases "fetch_popular_games w p s")
  obtain x1 where s1: "s1 = s\<lparr>log := log s @ x1, requests_sent := requests_sent s @ [params w p]\<rparr>"
    using fetch_popular_games_state [of w p s] f by auto
  let ?s2 = "logging ERROR (Fmt ''Failed to get popular games for page '' (VInt p) '''') s1"
  have s2: "?s2 = s\<lparr>log := log s @ (x1 @ [(ERROR, Fmt ''Failed to get popular games for page '' (VInt p) '''')]),
                     requests_sent := requests_sent s @ [params w p]\<rparr>"
    by (simp add: s1 logging_def)
  consider (raise) e where "r = Inl e"
    | (extend) g gs where "r = Inr (Some (g # gs))"
    | (falsy) "r = Inr None \<or> r = Inr (Some [])"
    by (cases r; cases "projr r"; cases "the (projr r)") auto
  then show ?case
  proof cases
    case raise
    then have "fst (collect_pages (fetch_popular_games w) (p # ps) acc s) =
       s\<lparr>log := log s @ x1, requests_sent := requests_sent s @ [params w p]\<rparr>"
      using f s1 by simp
    then show ?thesis by blast
  next
    case extend
    then have "collect_pages (fetch_popular_games w) (p # ps) acc s =
       collect_pages (fetch_popular_games w) ps (acc @ g # gs) s1"
      using f by simp
    moreover obtain x2 r2 where "fst (collect_pages (fetch_popular_games w) ps (acc @ g # gs) s1) =
       s1\<lparr>log := log s1 @ x2, requests_sent := requests_sent s1 @ r2\<rparr>"
      using Cons.IH by blast
    ultimately have "fst (collect_pages (fetch_popular_games w) (p # ps) acc s) =
       s\<lparr>log := log s @ (x1 @ x2), requests_sent := requests_sent s @ (params w p # r2)\<rparr>"
      by (simp add: s1)
    then show ?thesis by blast
  next
    case falsy
    then have "collect_pages (fetch_popular_games w) (p # ps) acc s =
       collect_pages (fetch_popular_games w) ps acc ?s2"
      using f by auto
    moreover obtain x2 r2 where "fst (collect_pages (fetch_popular_games w) ps acc ?s2) =
       ?s2\<lparr>log := log ?s2 @ x2, requests_sent := requests_sent ?s2 @ r2\<rparr>"
      using Cons.IH by blast
    ultimately have "fst (collect_pages (fetch_popular_games w) (p # ps) acc s) =
       s\<lparr>log := log s @ ((x1 @ [(ERROR, Fmt ''Failed to get popular games for page '' (VInt p) '''')]) @ x2),
         requests_sent := requests_sent s @ (params w p # r2)\<rparr>"
      by (simp add: s2)
    then show ?thesis by blast
  qed
qed

lemma fetch_popular_games_value:
  "\<forall>e. fetch_try w p = Inl e \<longrightarrow> is_Exception e \<Longrightarrow>
   snd (fetch_popular_games w p s) =
     Inr (case fetch_try w p of Inr gs \<Rightarrow> Some gs | Inl e \<Rightarrow> None)"
  by (auto simp: fetch_popular_games_def Let_def split: sum.splits)

lemma collect_pages_value:
  assumes "\<forall>p\<in>set ps. \<forall>e. fetch_try w p = Inl e \<longrightarrow> is_Exception e"
  shows "snd (collect_pages (fetch_popular_games w) ps acc s) =
     Inr (acc @ concat (map (\<lambda>p. case fetch_try w p of Inr gs \<Rightarrow> gs | Inl e \<Rightarrow> []) ps))"
  using assms
proof (induction ps arbitrary: acc s)
  case Nil
  show ?case by simp
next
  case (Cons p ps)
  obtain s1 r where f: "fetch_popular_games w p s = (s1, r)" by (cases "fetch_popular_games w p s")
  have r: "r = Inr (case fetch_try w p of Inr gs \<Rightarrow> Some gs | Inl e \<Rightarrow> None)"
    using fetch_popular_games_value [of w p s] Cons.prems f by simp
  have IH: "snd (collect_pages (fetch_popular_games w) ps acc' s') =
     Inr (acc' @ concat (map (\<lambda>p. case fetch_try w p of Inr gs \<Rightarrow> gs | Inl e \<Rightarrow> []) ps))" for acc' s'
    using Cons.IH Cons.prems by simp
  show ?case
  proof (cases "fetch_try w p")
    case (Inl e)
    then show ?thesis using f r IH by simp
  next
    case (Inr gs)
    then show ?thesis using f r IH by (cases gs) simp_all
  qed
qed

lemma collect_pages_requests:
  assumes "\<forall>p\<in>set ps. \<forall>e. fetch_try w p = Inl e \<longrightarrow> is_Exception e"
  shows "requests_sent (fst (collect_pages (fetch_popular_games w) ps acc s)) =
     requests_sent s @ map (params w) ps"
  using assms
proof (induction ps arbitrary: acc s)
  case Nil
  show ?case by simp
next
  case (Cons p ps)
  obtain s1 r where f: "fetch_popular_games w p s = (s1, r)" by (cases "fetch_popular_games w p s")
  have r: "r = Inr (case fetch_try w p of Inr gs \<Rightarrow> Some gs | Inl e \<Rightarrow> None)"
    using fetch_popular_games_value [of w p s] Cons.prems f by simp
  have s1: "requests_sent s1 = requests_sent s @ [params w p]"
    using fetch_popular_games_state [of w p s] f by auto
  have IH: "requests_sent (fst (collect_pages (fetch_popular_games w) ps acc' s')) =
     requests_sent s' @ map (params w) ps" for acc' s'
    using Cons.IH Cons.prems by simp
  show ?case
  proof (cases "fetch_try w p")
    case (Inl e)
    then show ?thesis using f r IH s1 by (simp add: logging_def)
  next
    case (Inr gs)
    then show ?thesis using f r IH s1 by (cases gs) (simp_all add: logging_def)
  qed
qed

lemma collect_pages_log_mono:
  "set (log s) \<subseteq> set (log (fst (collect_pages (fetch_popular_games w) ps acc s)))"
  using collect_pages_state [of w ps acc s] by auto

lemma collect_pages_logs_failure:
  assumes "\<forall>p\<in>set ps. \<forall>e. fetch_try w p = Inl e \<longrightarrow> is_Exception e"
    and "p \<in> set ps" "\<forall>g gs. fetch_try w p \<noteq> Inr (g # gs)"
  shows "(ERROR, Fmt ''Failed to get popular games for page '' (VInt p) '''')
           \<in> set (log (fst (collect_pages (fetch_popular_games w) ps acc s)))"
  using assms
proof (induction ps arbitrary: acc s)
  case Nil
  then show ?case by simp
next
  case (Cons q ps)
  obtain s1 r where f: "fetch_popular_games w q s = (s1, r)" by (cases "fetch_popular_games w q s")
  have r: "r = Inr (case fetch_try w q of Inr gs \<Rightarrow> Some gs | Inl e \<Rightarrow> None)"
    using fetch_popular_games_value [of w q s] Cons.prems(1) f by simp
  show ?case
  proof (cases "p = q")
    case True
    let ?s2 = "logging ERROR (Fmt ''Failed to get popular games for page '' (VInt p) '''') s1"
    have "collect_pages (fetch_popular_games w) (q # ps) acc s =
          collect_pages (fetch_popular_games w) ps acc ?s2"
    proof (cases "fetch_try w q")
      case (Inl e)
      then show ?thesis using f r True by simp
    next
      case (Inr gs)
      with Cons.prems(3) True have "gs = []" by (cases gs) auto
      then show ?thesis using f r True Inr by simp
    qed
    moreover have "(ERROR, Fmt ''Failed to get popular games for page '' (VInt p) '''') \<in> set (log ?s2)"
      by (simp add: logging_def)
    ultimately show ?thesis
      using collect_pages_log_mono [of ?s2 w ps acc] by auto
  next
    case False
    then have p: "p \<in> set ps" using Cons.prems(2) by simp
    have IH: "(ERROR, Fmt ''Failed to get popular games for page '' (VInt p) '''')
           \<in> set (log (fst (collect_pages (fetch_popular_games w) ps acc' s')))" for acc' s'
      using Cons.IH [OF _ p Cons.prems(3)] Cons.prems(1) by simp
    show ?thesis
    proof (cases "fetch_try w q")
      case (Inl e)
      then show ?thesis using f r IH by simp
    next
      case (Inr gs)
      then show ?thesis using f r IH by (cases gs) simp_all
    qed
  qed
qed

section \<open>The rendering loop and the exception handlers of load_games\<close>

lemma render_posters_raises:
  "render_posters fault gs s = (s', Some e) \<Longrightarrow> \<not> is_Exception e"
  by (induction gs arbitrary: s) (auto split: if_splits option.splits)

lemma render_posters_state:
  "\<exists>extra grid lbl. fst (render_posters fault gs s) =
     s\<lparr>log := log s @ extra, error_label := lbl,
       poster_grid_layout := poster_grid_layout s @ grid\<rparr>"
proof (induction gs arbitrary: s)
  case Nil
  have "fst (render_posters fault [] s) =
     s\<lparr>log := log s @ [], error_label := error_label s,
       poster_grid_layout := poster_grid_layout s @ []\<rparr>" by simp
  then show ?case by blast
next
  case (Cons g gs)
  let ?bg = "background_image g"
  let ?err = "Lit ''Error loading poster image. Please check your internet connection and try again.''"
  consider (falsy) "\<not> truthy ?bg"
    | (added) "truthy ?bg" "fault ?bg = None"
    | (caught) e where "truthy ?bg" "fault ?bg = Some e" "is_Exception e"
    | (raised) e where "truthy ?bg" "fault ?bg = Some e" "\<not> is_Exception e"
    by (cases "fault ?bg") auto
  then show ?case
  proof cases
    case falsy
    let ?s1 = "logging WARNING (Fmt ''No image available for the game: '' (VJson (name g)) '''') s"
    obtain x gr l where "fst (render_posters fault gs ?s1) =
        ?s1\<lparr>log := log ?s1 @ x, error_label := l, poster_grid_layout := poster_grid_layout ?s1 @ gr\<rparr>"
      using Cons.IH by blast
    then have "fst (render_posters fault (g # gs) s) =
        s\<lparr>log := log s @ ((WARNING, Fmt ''No image available for the game: '' (VJson (name g)) '''') # x),
          error_label := l, poster_grid_layout := poster_grid_layout s @ gr\<rparr>"
      using falsy by (simp add: logging_def)
    then show ?thesis by blast
  next
    case added
    let ?s1 = "s\<lparr>poster_grid_layout := poster_grid_layout s @ [game_poster ?bg]\<rparr>"
    obtain x gr l where "fst (render_posters fault gs ?s1) =
        ?s1\<lparr>log := log ?s1 @ x, error_label := l, poster_grid_layout := poster_grid_layout ?s1 @ gr\<rparr>"
      using Cons.IH by blast
    then have "fst (render_posters fault (g # gs) s) =
        s\<lparr>log := log s @ x, error_label := l,
          poster_grid_layout := poster_grid_layout s @ (game_poster ?bg # gr)\<rparr>"
      using added by simp
    then show ?thesis by blast
  next
    case caught
    let ?s1 = "(logging ERROR (Fmt ''Error loading poster: '' (VExn e) '''') s)\<lparr>error_label := ?err\<rparr>"
    obtain x gr l where "fst (render_posters fault gs ?s1) =
        ?s1\<lparr>log := log ?s1 @ x, error_label := l, poster_grid_layout := poster_grid_layout ?s1 @ gr\<rparr>"
      using Cons.IH by blast
    then have "fst (render_posters fault (g # gs) s) =
        s\<lparr>log := log s @ ((ERROR, Fmt ''Error loading poster: '' (VExn e) '''') # x),
          error_label := l, poster_grid_layout := poster_grid_layout s @ gr\<rparr>"
      using caught by (simp add: logging_def)
    then show ?thesis by blast
  next
    case raised
    then have "fst (render_posters fault (g # gs) s) =
        s\<lparr>log := log s @ [], error_label := error_label s,
          poster_grid_layout := poster_grid_layout s @ []\<rparr>"
      by simp
    then show ?thesis by blast
  qed
qed

lemma render_posters_log_mono:
  "set (log s) \<subseteq> set (log (fst (render_posters fault gs s)))"
  using render_posters_state [of fault gs s] by auto

lemma render_posters_requests:
  "requests_sent (fst (render_posters fault gs s)) = requests_sent s"
  using render_posters_state [of fault gs s] by auto




lemma game_poster_unbound: "on_release (game_poster src) = []"
  by (simp add: game_poster_def bind_on_release_def AsyncImage_events_def Widget_events_def)

lemma render_posters_bound:
  "\<forall>p\<in>set (poster_grid_layout s). on_release p = [] \<Longrightarrow>
   \<forall>p\<in>set (poster_grid_layout (fst (render_posters fault gs s))). on_release p = []"
proof (induction gs arbitrary: s)
  case Nil
  then show ?case by simp
next
  case (Cons g gs)
  let ?bg = "background_image g"
  have added: "\<forall>p\<in>set (poster_grid_layout
          (s\<lparr>poster_grid_layout := poster_grid_layout s @ [game_poster ?bg]\<rparr>)).
        on_release p = []"
    using Cons.prems by (simp add: game_poster_unbound)
  have caught: "\<forall>p\<in>set (poster_grid_layout
          ((logging ERROR m s)\<lparr>error_label := l\<rparr>)). on_release p = []" for m l
    using Cons.prems by (simp add: logging_def)
  have falsy: "\<forall>p\<in>set (poster_grid_layout (logging WARNING m s)).
        on_release p = []" for m
    using Cons.prems by (simp add: logging_def)
  show ?case
  proof (cases "truthy ?bg")
    case False
    then show ?thesis using Cons.IH [OF falsy] by simp
  next
    case True
    show ?thesis
    proof (cases "fault ?bg")
      case None
      then show ?thesis using True Cons.IH [OF added] by simp
    next
      case (Some e)
      then show ?thesis using True Cons.IH [OF caught] Cons.prems by simp
    qed
  qed
qed


text \<open>The handlers of the navigation, called in a state where both screens exist.\<close>

lemma show_game_details_shows_detail:
  "detail_screen s = Some ws \<Longrightarrow> ''Detail Screen'' \<in> set (screen_names s) \<Longrightarrow>
   \<exists>s1. show_game_details s = Inr s1 \<and> current s1 = Some ''Detail Screen'' \<and>
        detail_screen s1 =
          Some [BoxLayout [Label ''Game Name'', Label ''Game Description'', Label ''Release Date'',
                           Button ''Back'' [go_back_cb]]]"
  by (simp add: show_game_details_def bind_on_release_def Button_events_def Widget_events_def)

lemma go_back_shows_main:
  "''Main Screen'' \<in> set (screen_names s) \<Longrightarrow>
   \<exists>s1. go_back s = Inr s1 \<and> current s1 = Some ''Main Screen''"
  by (simp add: go_back_def)

lemma load_games_returns:
  assumes "collect_pages (fetch_popular_games w) [1..5] [] s = (s1, Inr cat)"
  shows "load_games w s =
     ((fst (render_posters (poster_fault w) cat s1))\<lparr>loading_popup_open := False\<rparr>,
      snd (render_posters (poster_fault w) cat s1))"
proof (cases "render_posters (poster_fault w) cat s1")
  case (Pair s2 r)
  show ?thesis
  proof (cases r)
    case None
    then show ?thesis using assms Pair
      by (simp add: load_games_def load_games_with_def load_games_try_def)
  next
    case (Some e)
    then have "\<not> is_Exception e" using Pair render_posters_raises by blast
    then show ?thesis using assms Pair Some
      by (simp add: load_games_def load_games_with_def load_games_try_def)
  qed
qed

lemma collect_pages_raises:
  "collect_pages (fetch_popular_games w) ps acc s = (s1, Inl e) \<Longrightarrow> \<not> is_Exception e"
proof (induction ps arbitrary: acc s)
  case Nil
  then show ?case by simp
next
  case (Cons p ps)
  obtain s' r where f: "fetch_popular_games w p s = (s', r)" by (cases "fetch_popular_games w p s")
  show ?case
  proof (cases r)
    case (Inl e')
    then have "e' = e" using Cons.prems f by simp
    moreover have "\<not> is_Exception e'"
      using f Inl by (auto simp: fetch_popular_games_def Let_def split: sum.splits if_splits)
    ultimately show ?thesis by simp
  next
    case (Inr page)
    then show ?thesis using Cons f
      by (auto split: option.splits list.splits)
  qed
qed

lemma load_games_raises:
  assumes "collect_pages (fetch_popular_games w) [1..5] [] s = (s1, Inl e)"
  shows "load_games w s = (s1\<lparr>loading_popup_open := False\<rparr>, Some e)"
  using assms collect_pages_raises [OF assms]
  by (simp add: load_games_def load_games_with_def load_games_try_def)

text \<open>
  With \<^verbatim>\<open>GAME_API_KEY\<close> unset the key is the placeholder literal of line 35, which is
  not empty: the key is empty only when the variable is set to the empty string.
\<close>

lemma api_key_unset: "environ w ''GAME_API_KEY'' = None \<Longrightarrow> api_key w = ''your_api_key_here''"
  by (simp add: api_key_def getenv_def)

lemma api_key_empty_iff: "api_key w = [] \<longleftrightarrow> environ w ''GAME_API_KEY'' = Some []"
  by (simp add: api_key_def getenv_def split: option.splits)

section \<open>The claims\<close>

text \<open>
  Claim C1 says that an item without \<^verbatim>\<open>name\<close> is skipped and the other items of the
  page are still returned. On the page \<open>[portal, nameless]\<close> the first item decodes to
  \<open>portal_details\<close>, yet the call returns \<^verbatim>\<open>None\<close> and not the list of that one
  record: \<^verbatim>\<open>game_data['name']\<close> raises \<^verbatim>\<open>KeyError\<close> inside the comprehension, and the
  only handler is the one around the whole function body.
\<close>

theorem nameless_item_aborts_page_example:
  "snd (fetch_popular_games (serving (\<lambda>p. results_page [portal, nameless])) 1 fresh_app) = Inr None \<and>
   snd (fetch_popular_games (serving (\<lambda>p. results_page [portal, nameless])) 1 fresh_app)
     \<noteq> Inr (Some [portal_details]) \<and>
   make_game portal = Inr portal_details"
  by (simp add: example_defs model_defs)

text \<open>
  Claim C1, as the code has it: for every response with status 2xx whose body is an
  object with a \<^verbatim>\<open>results\<close> list in which some item is an object without \<^verbatim>\<open>name\<close>,
  \<^verbatim>\<open>fetch_popular_games\<close> returns \<^verbatim>\<open>None\<close> for the whole page, after one query and one
  "Unexpected error" record in the log; the exception is the \<^verbatim>\<open>KeyError\<close> of that item
  or the \<^verbatim>\<open>TypeError\<close> of an earlier item that is not an object.
\<close>

theorem missing_name_fails_whole_page:
  assumes "requests_get w (params w n) = Inr resp" "raise_for_status resp = None"
    "json resp = Inr (JObject body)" "map_of body ''results'' = Some (JArray items)"
    and "JObject kvs \<in> set items" "map_of kvs ''name'' = None"
  shows "\<exists>e. (e = KeyError ''name'' \<or> e = TypeError) \<and>
           fetch_popular_games w n s =
             (logging ERROR (Fmt ''Unexpected error: '' (VExn e) '''')
                (s\<lparr>requests_sent := requests_sent s @ [params w n]\<rparr>), Inr None)"
proof -
  have "make_game (JObject kvs) = Inl (KeyError ''name'')"
    using assms(6) by (simp add: make_game_object)
  with assms(5) obtain e where e: "comprehension items = Inl e"
    using comprehension_bad_item by blast
  then have cls: "e = TypeError \<or> e = KeyError ''name''"
    by (rule comprehension_raises)
  have "fetch_try w n = Inl e"
    using assms(1-4) e by (simp add: fetch_try_results)
  moreover from cls have "\<not> is_RequestException e" "is_Exception e" by auto
  ultimately show ?thesis
    using cls fetch_popular_games_unexpected by blast
qed

text \<open>The page \<open>[portal, nameless]\<close> meets the hypotheses of the theorem for C1.\<close>

theorem missing_name_fails_whole_page_witness:
  "\<exists>e. (e = KeyError ''name'' \<or> e = TypeError) \<and>
     fetch_popular_games (serving (\<lambda>p. results_page [portal, nameless])) 1 fresh_app =
       (logging ERROR (Fmt ''Unexpected error: '' (VExn e) '''')
          (fresh_app\<lparr>requests_sent := requests_sent fresh_app @
             [params (serving (\<lambda>p. results_page [portal, nameless])) 1]\<rparr>), Inr None)"
proof -
  let ?w = "serving (\<lambda>p. results_page [portal, nameless])"
  have 1: "requests_get ?w (params ?w 1) = Inr (reply (results_page [portal, nameless]))"
    by (simp add: serving_def params_def)
  have 2: "raise_for_status (reply (results_page [portal, nameless])) = None"
    by (simp add: reply_def)
  have 3: "json (reply (results_page [portal, nameless])) =
      Inr (JObject [(''count'', JInt 50), (''results'', JArray [portal, nameless])])"
    by (simp add: reply_def results_page_def)
  have 4: "map_of [(''count'', JInt 50), (''results'', JArray [portal, nameless])] ''results'' =
      Some (JArray [portal, nameless])"
    by simp
  have 5: "JObject [(''released'', JString ''2011-04-18'')] \<in> set [portal, nameless]"
    by (simp add: nameless_def)
  have 6: "map_of [(''released'', JString ''2011-04-18'')] ''name'' = None"
    by simp
  show ?thesis
    by (rule missing_name_fails_whole_page [OF 1 2 3 4 5 6])
qed

text \<open>
  Claim C2: when \<^verbatim>\<open>requests.get\<close> raises a \<^verbatim>\<open>RequestException\<close> (a connection
  failure), or \<^verbatim>\<open>raise_for_status\<close> raises one (the \<^verbatim>\<open>HTTPError\<close> of an error
  status), \<^verbatim>\<open>fetch_popular_games\<close> logs "Request error occurred" and returns \<^verbatim>\<open>None\<close>;
  the result is \<open>Inr\<close>, so no exception leaves the function.
\<close>

theorem network_error_returns_None:
  assumes "requests_get w (params w n) = Inl e \<or>
           (\<exists>resp. requests_get w (params w n) = Inr resp \<and> raise_for_status resp = Some e)"
    and "is_RequestException e"
  shows "fetch_popular_games w n s =
           (logging ERROR (Fmt ''Request error occurred: '' (VExn e) '''')
              (s\<lparr>requests_sent := requests_sent s @ [params w n]\<rparr>), Inr None)"
proof -
  from assms(1) have "fetch_try w n = Inl e"
    by (auto simp: fetch_try_def)
  with assms(2) show ?thesis
    by (simp add: fetch_popular_games_request_error)
qed

text \<open>The world in which every connection is refused.\<close>

theorem network_error_returns_None_witness:
  "fetch_popular_games offline 1 fresh_app =
     (logging ERROR (Fmt ''Request error occurred: '' (VExn (RequestException ''connection refused'')) '''')
        (fresh_app\<lparr>requests_sent := requests_sent fresh_app @ [params offline 1]\<rparr>), Inr None)"
proof -
  have 1: "requests_get offline (params offline 1) = Inl (RequestException ''connection refused'') \<or>
           (\<exists>resp. requests_get offline (params offline 1) = Inr resp \<and>
                   raise_for_status resp = Some (RequestException ''connection refused''))"
    by (simp add: offline_def)
  have 2: "is_RequestException (RequestException ''connection refused'')"
    by simp
  show ?thesis
    by (rule network_error_returns_None [OF 1 2])
qed

text \<open>
  Claim C3: on a page whose items are all objects with a \<^verbatim>\<open>name\<close>, the call returns
  one record per item, in order, and the record of an item that lacks
  \<^verbatim>\<open>description\<close>, \<^verbatim>\<open>released\<close> or \<^verbatim>\<open>background_image\<close> holds
  \<open>''No description available''\<close>, \<open>''Unknown release date''\<close> or the empty string in
  that field.
\<close>

theorem missing_optional_fields_get_sentinels:
  assumes "requests_get w (params w n) = Inr resp" "raise_for_status resp = None"
    "json resp = Inr (JObject body)" "map_of body ''results'' = Some (JArray items)"
    and "\<forall>it\<in>set items. \<exists>kvs nm. it = JObject kvs \<and> map_of kvs ''name'' = Some nm"
  shows "\<exists>gs. snd (fetch_popular_games w n s) = Inr (Some gs) \<and> length gs = length items \<and>
           (\<forall>i<length items. \<forall>kvs. items ! i = JObject kvs \<longrightarrow>
              map_of kvs ''name'' = Some (name (gs ! i)) \<and>
              (map_of kvs ''description'' = None \<longrightarrow>
                 description (gs ! i) = JString ''No description available'') \<and>
              (map_of kvs ''released'' = None \<longrightarrow>
                 release_date (gs ! i) = JString ''Unknown release date'') \<and>
              (map_of kvs ''background_image'' = None \<longrightarrow>
                 background_image (gs ! i) = JString ''''))"
proof -
  have "\<forall>it\<in>set items. \<exists>g. make_game it = Inr g"
    using assms(5) by (auto simp: make_game_object)
  then have "\<exists>gs. map make_game items = map Inr gs"
  proof (induction items)
    case Nil
    show ?case by simp
  next
    case (Cons it items)
    then obtain g gs where "make_game it = Inr g" "map make_game items = map Inr gs"
      by auto
    then have "map make_game (it # items) = map Inr (g # gs)" by simp
    then show ?case by blast
  qed
  then obtain gs where gs: "map make_game items = map Inr gs" ..
  then have len: "length gs = length items"
    by (metis length_map)
  have nth: "make_game (items ! i) = Inr (gs ! i)" if "i < length items" for i
    using gs that len by (metis nth_map)
  have "fetch_try w n = Inr gs"
    using assms(1-4) gs by (simp add: fetch_try_results comprehension_Inr_iff)
  then have "snd (fetch_popular_games w n s) = Inr (Some gs)"
    by (simp add: fetch_popular_games_returns)
  moreover have "map_of kvs ''name'' = Some (name (gs ! i)) \<and>
              (map_of kvs ''description'' = None \<longrightarrow>
                 description (gs ! i) = JString ''No description available'') \<and>
              (map_of kvs ''released'' = None \<longrightarrow>
                 release_date (gs ! i) = JString ''Unknown release date'') \<and>
              (map_of kvs ''background_image'' = None \<longrightarrow>
                 background_image (gs ! i) = JString '''')"
    if "i < length items" "items ! i = JObject kvs" for i kvs
  proof -
    from nth[OF that(1)] that(2) have mk: "make_game (JObject kvs) = Inr (gs ! i)" by simp
    then obtain nm where nm: "map_of kvs ''name'' = Some nm"
      by (cases "map_of kvs ''name''") (auto simp: make_game_object)
    with mk have "gs ! i =
        \<lparr>name = nm,
         description = (case map_of kvs ''description'' of
                          None \<Rightarrow> JString ''No description available'' | Some v \<Rightarrow> v),
         release_date = (case map_of kvs ''released'' of
                          None \<Rightarrow> JString ''Unknown release date'' | Some v \<Rightarrow> v),
         background_image = (case map_of kvs ''background_image'' of
                          None \<Rightarrow> JString [] | Some v \<Rightarrow> v)\<rparr>"
      by (simp add: make_game_object)
    with nm show ?thesis by simp
  qed
  ultimately show ?thesis using len by blast
qed

text \<open>The second item of the page \<open>[portal, zork]\<close> has a name and nothing else.\<close>

theorem missing_optional_fields_get_sentinels_witness:
  "\<exists>gs. snd (fetch_popular_games (serving (\<lambda>p. results_page [portal, zork])) 1 fresh_app) =
           Inr (Some gs) \<and> length gs = 2 \<and>
         name (gs ! 1) = JString ''Zork'' \<and>
         description (gs ! 1) = JString ''No description available'' \<and>
         release_date (gs ! 1) = JString ''Unknown release date'' \<and>
         background_image (gs ! 1) = JString ''''"
proof -
  let ?w = "serving (\<lambda>p. results_page [portal, zork])"
  have 1: "requests_get ?w (params ?w 1) = Inr (reply (results_page [portal, zork]))"
    by (simp add: serving_def params_def)
  have 2: "raise_for_status (reply (results_page [portal, zork])) = None"
    by (simp add: reply_def)
  have 3: "json (reply (results_page [portal, zork])) =
      Inr (JObject [(''count'', JInt 50), (''results'', JArray [portal, zork])])"
    by (simp add: reply_def results_page_def)
  have 4: "map_of [(''count'', JInt 50), (''results'', JArray [portal, zork])] ''results'' =
      Some (JArray [portal, zork])"
    by simp
  have 5: "\<forall>it\<in>set [portal, zork]. \<exists>kvs nm. it = JObject kvs \<and> map_of kvs ''name'' = Some nm"
    by (simp add: portal_def zork_def)
  from missing_optional_fields_get_sentinels [OF 1 2 3 4 5, of fresh_app]
  obtain gs where gs: "snd (fetch_popular_games ?w 1 fresh_app) = Inr (Some gs)"
      "length gs = length [portal, zork]"
      "\<And>i kvs. i < length [portal, zork] \<Longrightarrow> [portal, zork] ! i = JObject kvs \<Longrightarrow>
         map_of kvs ''name'' = Some (name (gs ! i)) \<and>
         (map_of kvs ''description'' = None \<longrightarrow>
            description (gs ! i) = JString ''No description available'') \<and>
         (map_of kvs ''released'' = None \<longrightarrow>
            release_date (gs ! i) = JString ''Unknown release date'') \<and>
         (map_of kvs ''background_image'' = None \<longrightarrow> background_image (gs ! i) = JString '''')"
    by blast
  have "[portal, zork] ! 1 = JObject [(''name'', JString ''Zork'')]"
    by (simp add: zork_def)
  from gs(3) [OF _ this] have
    "name (gs ! 1) = JString ''Zork'' \<and>
     description (gs ! 1) = JString ''No description available'' \<and>
     release_date (gs ! 1) = JString ''Unknown release date'' \<and>
     background_image (gs ! 1) = JString ''''"
    by simp
  with gs(1,2) show ?thesis by simp
qed

text \<open>
  Claim C4: if each of the pages 1 to 5 is answered with status 2xx and a \<^verbatim>\<open>results\<close>
  list of ten items that all decode, then \<^verbatim>\<open>all_popular_games\<close> is the concatenation
  of the five decoded pages: it has fifty records, and the record at position
  \<open>10 * (p - 1) + i\<close> is the decoding of item \<open>i\<close> of page \<open>p\<close>.
\<close>

theorem five_pages_of_ten_give_fifty_in_order:
  assumes "\<forall>p\<in>{1..5}. \<exists>resp body.
             requests_get w (params w p) = Inr resp \<and> raise_for_status resp = None \<and>
             json resp = Inr (JObject body) \<and>
             map_of body ''results'' = Some (JArray (items p)) \<and>
             length (items p) = 10 \<and> map make_game (items p) = map Inr (games p)"
  shows "all_popular_games w s = Inr (games 1 @ games 2 @ games 3 @ games 4 @ games 5) \<and>
         length (games 1 @ games 2 @ games 3 @ games 4 @ games 5) = 50 \<and>
         (\<forall>p\<in>{1..5}. \<forall>i<10.
            (games 1 @ games 2 @ games 3 @ games 4 @ games 5) ! (10 * nat (p - 1) + i) = games p ! i \<and>
            make_game (items p ! i) = Inr (games p ! i))"
proof -
  have page: "fetch_try w p = Inr (games p) \<and> length (games p) = 10 \<and>
              (\<forall>i<10. make_game (items p ! i) = Inr (games p ! i))" if "p \<in> {1..5}" for p
  proof -
    from assms that obtain resp body where r:
      "requests_get w (params w p) = Inr resp" "raise_for_status resp = None"
      "json resp = Inr (JObject body)" "map_of body ''results'' = Some (JArray (items p))"
      "length (items p) = 10" "map make_game (items p) = map Inr (games p)"
      by blast
    have len: "length (games p) = 10"
      using r(5,6) by (metis length_map)
    have "fetch_try w p = Inr (games p)"
      using r by (simp add: fetch_try_results comprehension_Inr_iff)
    moreover have "make_game (items p ! i) = Inr (games p ! i)" if "i < 10" for i
      using r(5,6) len that by (metis nth_map)
    ultimately show ?thesis using len by blast
  qed
  have five: "(1::int) \<in> {1..5}" "(2::int) \<in> {1..5}" "(3::int) \<in> {1..5}" "(4::int) \<in> {1..5}"
    "(5::int) \<in> {1..5}" by simp_all
  note p1 = page [OF five(1)] and p2 = page [OF five(2)] and p3 = page [OF five(3)]
    and p4 = page [OF five(4)] and p5 = page [OF five(5)]
  have ok: "\<forall>p\<in>set [1..5]. \<forall>e. fetch_try w p = Inl e \<longrightarrow> is_Exception e"
    using page by auto
  have "all_popular_games w s =
          Inr ([] @ concat (map (\<lambda>p. case fetch_try w p of Inr gs \<Rightarrow> gs | Inl e \<Rightarrow> []) [1..5]))"
    unfolding all_popular_games_def by (rule collect_pages_value [OF ok])
  then have cat: "all_popular_games w s = Inr (games 1 @ games 2 @ games 3 @ games 4 @ games 5)"
    using p1 p2 p3 p4 p5 by (simp add: range_1_6)
  have len: "length (games 1 @ games 2 @ games 3 @ games 4 @ games 5) = 50"
    using p1 p2 p3 p4 p5 by simp
  have pos: "(games 1 @ games 2 @ games 3 @ games 4 @ games 5) ! (10 * nat (p - 1) + i) = games p ! i"
    if "p \<in> {1..5}" "i < 10" for p i
  proof -
    from that(1) have "p = 1 \<or> p = 2 \<or> p = 3 \<or> p = 4 \<or> p = 5"
      by (simp only: atLeastAtMost_iff) arith
    then consider "p = 1" | "p = 2" | "p = 3" | "p = 4" | "p = 5"
      by blast
    then show ?thesis
      using p1 p2 p3 p4 p5 that(2) by cases (simp_all add: nth_append)
  qed
  show ?thesis using cat len pos page by blast
qed

text \<open>A server that answers page \<open>p\<close> with ten games numbered \<open>p\<close>.\<close>

theorem five_pages_of_ten_give_fifty_in_order_witness:
  "all_popular_games ten_per_page fresh_app =
     Inr (replicate 10 (numbered_details 1) @ replicate 10 (numbered_details 2) @
          replicate 10 (numbered_details 3) @ replicate 10 (numbered_details 4) @
          replicate 10 (numbered_details 5)) \<and>
   length (replicate 10 (numbered_details 1) @ replicate 10 (numbered_details 2) @
           replicate 10 (numbered_details 3) @ replicate 10 (numbered_details 4) @
           replicate 10 (numbered_details 5)) = 50"
proof -
  have h: "\<forall>p\<in>{1..5}. \<exists>resp body.
             requests_get ten_per_page (params ten_per_page p) = Inr resp \<and>
             raise_for_status resp = None \<and>
             json resp = Inr (JObject body) \<and>
             map_of body ''results'' = Some (JArray (replicate 10 (numbered_game p))) \<and>
             length (replicate 10 (numbered_game p)) = 10 \<and>
             map make_game (replicate 10 (numbered_game p)) =
               map Inr (replicate 10 (numbered_details p))"
  proof
    fix p :: int
    let ?resp = "reply (results_page (replicate 10 (numbered_game p)))"
    let ?body = "[(''count'', JInt 50), (''results'', JArray (replicate 10 (numbered_game p)))]"
    have "requests_get ten_per_page (params ten_per_page p) = Inr ?resp"
      by (simp add: ten_per_page_def serving_def params_def)
    moreover have "raise_for_status ?resp = None" "json ?resp = Inr (JObject ?body)"
      by (simp_all add: reply_def results_page_def)
    moreover have "map_of ?body ''results'' = Some (JArray (replicate 10 (numbered_game p)))"
      by simp
    moreover have "make_game (numbered_game p) = Inr (numbered_details p)"
      by (simp add: make_game_def numbered_game_def numbered_details_def)
    then have "map make_game (replicate 10 (numbered_game p)) =
               map Inr (replicate 10 (numbered_details p))"
      by simp
    ultimately show "\<exists>resp body.
             requests_get ten_per_page (params ten_per_page p) = Inr resp \<and>
             raise_for_status resp = None \<and>
             json resp = Inr (JObject body) \<and>
             map_of body ''results'' = Some (JArray (replicate 10 (numbered_game p))) \<and>
             length (replicate 10 (numbered_game p)) = 10 \<and>
             map make_game (replicate 10 (numbered_game p)) =
               map Inr (replicate 10 (numbered_details p))"
      by (metis length_replicate)
  qed
  from five_pages_of_ten_give_fifty_in_order [OF h, of fresh_app]
  show ?thesis by blast
qed

text \<open>
  Claim C5: if the key read at line 35 is empty, the app ends its start-up with the fixed
  message in the error label, the loading popup dismissed, \<^verbatim>\<open>load_games\<close> never
  scheduled, no poster in the grid, and an empty network trace; \<^verbatim>\<open>build\<close> returns the
  bare layout.
\<close>

theorem empty_api_key_fails_without_request:
  assumes "api_key w = []"
  shows "requests_sent (fst (run w)) = [] \<and>
         error_label (fst (run w)) =
           Lit ''Error: API key not found. Please check your environment variables or the default API key in the code.'' \<and>
         \<not> loading_popup_open (fst (run w)) \<and>
         \<not> load_games_scheduled (fst (run w)) \<and>
         poster_grid_layout (fst (run w)) = [] \<and>
         snd (run w) = None \<and> snd (build w) = RootLayout"
  using assms by (simp add: run_def build_def fresh_app_def Let_def)

text \<open>An environment in which \<^verbatim>\<open>GAME_API_KEY\<close> is set to the empty string.\<close>

theorem empty_api_key_fails_without_request_witness:
  "api_key empty_key = [] \<and>
   requests_sent (fst (run empty_key)) = [] \<and>
   error_label (fst (run empty_key)) =
     Lit ''Error: API key not found. Please check your environment variables or the default API key in the code.'' \<and>
   \<not> loading_popup_open (fst (run empty_key)) \<and>
   \<not> load_games_scheduled (fst (run empty_key)) \<and>
   poster_grid_layout (fst (run empty_key)) = [] \<and>
   snd (run empty_key) = None \<and> snd (build empty_key) = RootLayout"
proof -
  have k: "api_key empty_key = []"
    by (simp add: api_key_def getenv_def empty_key_def)
  from empty_api_key_fails_without_request [OF k] k show ?thesis by blast
qed

text \<open>
  Claim C6: provided no exception leaves a fetch, every page of 1 to 5 is queried exactly
  once and in order whatever the outcome of the others, the catalog is the concatenation
  of the pages that were returned, and for every page whose fetch fails the call returns
  \<^verbatim>\<open>None\<close> and \<^verbatim>\<open>load_games\<close> logs "Failed to get popular games for page" with its
  number.
\<close>

theorem failed_page_is_logged_and_skipped:
  assumes "\<forall>p\<in>{1..5}. \<forall>e. fetch_try w p = Inl e \<longrightarrow> is_Exception e"
  shows "all_popular_games w s =
           Inr (concat (map (\<lambda>p. case fetch_try w p of Inr gs \<Rightarrow> gs | Inl e \<Rightarrow> []) [1..5])) \<and>
         requests_sent (fst (load_games w s)) = requests_sent s @ map (params w) [1..5] \<and>
         (\<forall>p\<in>{1..5}. \<forall>e. fetch_try w p = Inl e \<longrightarrow>
            snd (fetch_popular_games w p s) = Inr None \<and>
            (ERROR, Fmt ''Failed to get popular games for page '' (VInt p) '''')
              \<in> set (log (fst (load_games w s))))"
proof -
  let ?c = "collect_pages (fetch_popular_games w) [1..5] [] s"
  have ok: "\<forall>p\<in>set [1..5]. \<forall>e. fetch_try w p = Inl e \<longrightarrow> is_Exception e"
    using assms by simp
  have val: "snd ?c =
      Inr ([] @ concat (map (\<lambda>p. case fetch_try w p of Inr gs \<Rightarrow> gs | Inl e \<Rightarrow> []) [1..5]))"
    by (rule collect_pages_value [OF ok])
  then obtain s1 cat where c: "?c = (s1, Inr cat)"
    by (cases ?c) auto
  have lg: "load_games w s =
     ((fst (render_posters (poster_fault w) cat s1))\<lparr>loading_popup_open := False\<rparr>,
      snd (render_posters (poster_fault w) cat s1))"
    by (rule load_games_returns [OF c])
  have "requests_sent s1 = requests_sent s @ map (params w) [1..5]"
    using collect_pages_requests [OF ok, of "[]" s] c by simp
  then have req: "requests_sent (fst (load_games w s)) = requests_sent s @ map (params w) [1..5]"
    by (simp add: lg render_posters_requests)
  have logged: "(ERROR, Fmt ''Failed to get popular games for page '' (VInt p) '''')
              \<in> set (log (fst (load_games w s)))"
    if "p \<in> {1..5}" "fetch_try w p = Inl e" for p e
  proof -
    have "p \<in> set [1..5]" using that(1) by simp
    moreover have "\<forall>g gs. fetch_try w p \<noteq> Inr (g # gs)" using that(2) by simp
    ultimately have "(ERROR, Fmt ''Failed to get popular games for page '' (VInt p) '''')
        \<in> set (log (fst ?c))"
      using collect_pages_logs_failure [OF ok] by blast
    then have "(ERROR, Fmt ''Failed to get popular games for page '' (VInt p) '''') \<in> set (log s1)"
      using c by simp
    then show ?thesis
      using render_posters_log_mono [of s1 "poster_fault w" cat] by (auto simp: lg)
  qed
  have none: "snd (fetch_popular_games w p s) = Inr None"
    if "p \<in> {1..5}" "fetch_try w p = Inl e" for p e
    using fetch_popular_games_value [of w p s] assms that by auto
  show ?thesis
    using val req logged none by (auto simp: all_popular_games_def)
qed

text \<open>Page 3 times out, the other four pages hold one game each.\<close>

theorem failed_page_is_logged_and_skipped_witness:
  "all_popular_games page_three_down fresh_app =
     Inr [zork_details, zork_details, zork_details, zork_details] \<and>
   map page (requests_sent (fst (load_games page_three_down fresh_app))) = [1, 2, 3, 4, 5] \<and>
   snd (fetch_popular_games page_three_down 3 fresh_app) = Inr None \<and>
   (ERROR, Fmt ''Failed to get popular games for page '' (VInt 3) '''')
     \<in> set (log (fst (load_games page_three_down fresh_app)))"
proof -
  have ft: "fetch_try page_three_down p =
      (if p = 3 then Inl (RequestException ''read timed out'') else Inr [zork_details])" for p
    by (simp add: fetch_try_def page_three_down_def params_def reply_def results_page_def
        zork_def zork_details_def make_game_def)
  then have h: "\<forall>p\<in>{1..5}. \<forall>e. fetch_try page_three_down p = Inl e \<longrightarrow> is_Exception e"
    by simp
  have three: "(3::int) \<in> {1..5}" by simp
  from failed_page_is_logged_and_skipped [OF h, of fresh_app] three ft [of 3]
  have "all_popular_games page_three_down fresh_app =
           Inr (concat (map (\<lambda>p. case fetch_try page_three_down p of Inr gs \<Rightarrow> gs | Inl e \<Rightarrow> []) [1..5]))"
    and "requests_sent (fst (load_games page_three_down fresh_app)) =
           requests_sent fresh_app @ map (params page_three_down) [1..5]"
    and "snd (fetch_popular_games page_three_down 3 fresh_app) = Inr None"
    and "(ERROR, Fmt ''Failed to get popular games for page '' (VInt 3) '''')
              \<in> set (log (fst (load_games page_three_down fresh_app)))"
    by auto
  then show ?thesis
    by (simp add: ft range_1_6 fresh_app_def params_def)
qed

text \<open>
  Claim C7: whatever the calls made by \<^verbatim>\<open>load_games\<close> do, the loading popup is
  dismissed when \<^verbatim>\<open>load_games\<close> ends. When the body completes, nothing else changes;
  when an \<^verbatim>\<open>Exception\<close> leaves the body, the label shows "General error: ...", the same
  text is logged, and \<^verbatim>\<open>load_games\<close> returns without an exception.
\<close>

theorem loading_popup_always_dismissed:
  assumes "load_games_try fetch fault s = (s1, r)"
  shows "\<not> loading_popup_open (fst (load_games_with fetch fault s)) \<and>
         \<not> loading_popup_open (fst (load_games w s0)) \<and>
         (r = None \<longrightarrow>
            load_games_with fetch fault s = (s1\<lparr>loading_popup_open := False\<rparr>, None)) \<and>
         (\<forall>e. r = Some e \<and> is_Exception e \<longrightarrow>
            load_games_with fetch fault s =
              (s1\<lparr>log := log s1 @
                     [(ERROR, Fmt ''General error: '' (VExn e)
                                ''. Please check your setup and try again.'')],
                  error_label := Fmt ''General error: '' (VExn e)
                                ''. Please check your setup and try again.'',
                  loading_popup_open := False\<rparr>, None))"
proof -
  have dismissed: "\<not> loading_popup_open (fst (load_games_with f g t))" for f g t
    by (simp add: load_games_with_def split: prod.splits option.splits)
  have "\<not> loading_popup_open (fst (load_games w s0))"
    unfolding load_games_def by (rule dismissed)
  moreover have "r = None \<longrightarrow>
      load_games_with fetch fault s = (s1\<lparr>loading_popup_open := False\<rparr>, None)"
    using assms by (simp add: load_games_with_def)
  moreover have "load_games_with fetch fault s =
              (s1\<lparr>log := log s1 @
                     [(ERROR, Fmt ''General error: '' (VExn e)
                                ''. Please check your setup and try again.'')],
                  error_label := Fmt ''General error: '' (VExn e)
                                ''. Please check your setup and try again.'',
                  loading_popup_open := False\<rparr>, None)"
    if "r = Some e" "is_Exception e" for e
    using assms that by (simp add: load_games_with_def general_error_def logging_def Let_def)
  ultimately show ?thesis using dismissed by blast
qed

text \<open>A callee that raises on the first page, with the popup open.\<close>

theorem loading_popup_always_dismissed_witness:
  "load_games_try raising_fetch (\<lambda>src. None) (fresh_app\<lparr>loading_popup_open := True\<rparr>) =
     (fresh_app\<lparr>loading_popup_open := True\<rparr>, Some (OtherException ''boom'')) \<and>
   is_Exception (OtherException ''boom'') \<and>
   load_games_with raising_fetch (\<lambda>src. None) (fresh_app\<lparr>loading_popup_open := True\<rparr>) =
     (fresh_app\<lparr>log := [(ERROR, Fmt ''General error: '' (VExn (OtherException ''boom''))
                                   ''. Please check your setup and try again.'')],
                error_label := Fmt ''General error: '' (VExn (OtherException ''boom''))
                                   ''. Please check your setup and try again.'',
                loading_popup_open := False\<rparr>, None)"
proof -
  let ?s = "fresh_app\<lparr>loading_popup_open := True\<rparr>"
  have 1: "load_games_try raising_fetch (\<lambda>src. None) ?s = (?s, Some (OtherException ''boom''))"
    by (simp add: load_games_try_def raising_fetch_def range_1_6)
  have 2: "is_Exception (OtherException ''boom'')" by simp
  from loading_popup_always_dismissed [OF 1] 2
  have "load_games_with raising_fetch (\<lambda>src. None) ?s =
     (?s\<lparr>log := log ?s @ [(ERROR, Fmt ''General error: '' (VExn (OtherException ''boom''))
                                   ''. Please check your setup and try again.'')],
          error_label := Fmt ''General error: '' (VExn (OtherException ''boom''))
                                   ''. Please check your setup and try again.'',
          loading_popup_open := False\<rparr>, None)"
    by blast
  with 1 2 show ?thesis by (simp add: fresh_app_def)
qed




text \<open>
  Claim C9 says that a tap on any rendered tile shows the detail screen, and that Back
  shows the main screen again. After a start-up that renders the poster of \<open>portal\<close> the
  main screen is current and the poster is in the grid, but the poster has no observer
  of \<^verbatim>\<open>on_release\<close>: the \<^verbatim>\<open>bind\<close> of line 141 names an event that an \<^verbatim>\<open>AsyncImage\<close> does
  not have. A tap on the poster therefore calls nothing, the state is as it was and the
  main screen is still current. The handler itself, called in that state, would show
  the detail screen with a Back button bound to \<^verbatim>\<open>go_back\<close>, and \<^verbatim>\<open>go_back\<close> would show
  the main screen.
\<close>

theorem tap_on_poster_leaves_main_screen:
  "game_poster (JString ''https://media.rawg.io/portal.jpg'')
     \<in> set (poster_grid_layout (fst (run (serving (\<lambda>p. results_page [portal]))))) \<and>
   current (fst (run (serving (\<lambda>p. results_page [portal])))) = Some ''Main Screen'' \<and>
   on_release (game_poster (JString ''https://media.rawg.io/portal.jpg'')) = [] \<and>
   dispatch (on_release (game_poster (JString ''https://media.rawg.io/portal.jpg'')))
       (fst (run (serving (\<lambda>p. results_page [portal])))) =
     Inr (fst (run (serving (\<lambda>p. results_page [portal])))) \<and>
   map_sum id current (show_game_details (fst (run (serving (\<lambda>p. results_page [portal]))))) =
     Inr (Some ''Detail Screen'')"
  by (simp add: example_defs model_defs range_1_6 Let_def)

text \<open>
  Claim C10: for a response with status 2xx whose body is an object without \<^verbatim>\<open>results\<close>
  or with an empty \<^verbatim>\<open>results\<close> list, \<^verbatim>\<open>fetch_popular_games\<close> returns the empty list
  and logs nothing, and the loop of \<^verbatim>\<open>load_games\<close> then does for that page exactly what
  it does when the call returns \<^verbatim>\<open>None\<close>: it logs the page as failed and adds nothing.
\<close>

theorem empty_page_is_success_but_treated_as_failure:
  assumes "requests_get w (params w n) = Inr resp" "raise_for_status resp = None"
    "json resp = Inr (JObject body)"
    and "map_of body ''results'' = None \<or> map_of body ''results'' = Some (JArray [])"
  shows "fetch_popular_games w n s =
           (s\<lparr>requests_sent := requests_sent s @ [params w n]\<rparr>, Inr (Some [])) \<and>
         collect_pages (fetch_popular_games w) [n] acc s =
           (logging ERROR (Fmt ''Failed to get popular games for page '' (VInt n) '''')
              (s\<lparr>requests_sent := requests_sent s @ [params w n]\<rparr>), Inr acc) \<and>
         collect_pages (fetch_popular_games w) [n] acc s =
           collect_pages
             (\<lambda>p t. (t\<lparr>requests_sent := requests_sent t @ [params w p]\<rparr>, Inr None)) [n] acc s"
proof -
  have "fetch_try w n = Inr []"
    using assms by (auto simp: fetch_try_results)
  then have 1: "fetch_popular_games w n s =
           (s\<lparr>requests_sent := requests_sent s @ [params w n]\<rparr>, Inr (Some []))"
    by (rule fetch_popular_games_returns)
  then show ?thesis by simp
qed

text \<open>A server whose pages have an empty \<^verbatim>\<open>results\<close> list.\<close>

theorem empty_page_is_success_but_treated_as_failure_witness:
  "fetch_popular_games (serving (\<lambda>p. results_page [])) 2 fresh_app =
     (fresh_app\<lparr>requests_sent := requests_sent fresh_app @
        [params (serving (\<lambda>p. results_page [])) 2]\<rparr>, Inr (Some [])) \<and>
   collect_pages (fetch_popular_games (serving (\<lambda>p. results_page []))) [2] [] fresh_app =
     (logging ERROR (Fmt ''Failed to get popular games for page '' (VInt 2) '''')
        (fresh_app\<lparr>requests_sent := requests_sent fresh_app @
           [params (serving (\<lambda>p. results_page [])) 2]\<rparr>), Inr [])"
proof -
  let ?w = "serving (\<lambda>p. results_page [])"
  have 1: "requests_get ?w (params ?w 2) = Inr (reply (results_page []))"
    by (simp add: serving_def params_def)
  have 2: "raise_for_status (reply (results_page [])) = None"
    by (simp add: reply_def)
  have 3: "json (reply (results_page [])) =
      Inr (JObject [(''count'', JInt 50), (''results'', JArray [])])"
    by (simp add: reply_def results_page_def)
  have 4: "map_of [(''count'', JInt 50), (''results'', JArray [])] ''results'' = None \<or>
           map_of [(''count'', JInt 50), (''results'', JArray [])] ''results'' = Some (JArray [])"
    by simp
  from empty_page_is_success_but_treated_as_failure [OF 1 2 3 4, of fresh_app "[]"]
  show ?thesis by blast
qed

end
